theory Spec2Isabelle
  imports Main
begin

section \<open>Vocabulary (constants.go)\<close>

definition EventTypeCreate :: string where "EventTypeCreate = ''create''"
definition EventTypeUpdate :: string where "EventTypeUpdate = ''update''"
definition EventTypeDelete :: string where "EventTypeDelete = ''delete''"
definition EventTypeCreateReq :: string where "EventTypeCreateReq = ''create_request''"
definition EventTypeUpdateReq :: string where "EventTypeUpdateReq = ''update_request''"
definition EventTypeDeleteReq :: string where "EventTypeDeleteReq = ''delete_request''"
definition EventTypeAuth :: string where "EventTypeAuth = ''auth''"

definition AllEventTypes :: "string list" where
  "AllEventTypes = [EventTypeCreate, EventTypeUpdate, EventTypeDelete,
     EventTypeCreateReq, EventTypeUpdateReq, EventTypeDeleteReq, EventTypeAuth]"

text \<open>The members of the struct \<open>AuditLogFields\<close>, one constant each.\<close>

definition F_EventType :: string where "F_EventType = ''event_type''"
definition F_CollectionName :: string where "F_CollectionName = ''collection_name''"
definition F_RecordID :: string where "F_RecordID = ''record_id''"
definition F_UserID :: string where "F_UserID = ''user_id''"
definition F_AuthMethod :: string where "F_AuthMethod = ''auth_method''"
definition F_RequestMethod :: string where "F_RequestMethod = ''request_method''"
definition F_RequestIP :: string where "F_RequestIP = ''request_ip''"
definition F_RequestURL :: string where "F_RequestURL = ''request_url''"
definition F_Timestamp :: string where "F_Timestamp = ''timestamp''"
definition F_BeforeChanges :: string where "F_BeforeChanges = ''before_changes''"
definition F_AfterChanges :: string where "F_AfterChanges = ''after_changes''"
definition F_Created :: string where "F_Created = ''created''"
definition F_Updated :: string where "F_Updated = ''updated''"

section \<open>The platform: values, records, collections, storage\<close>

text \<open>
  A Go \<open>interface{}\<close> value as the logger meets it: \<open>nil\<close>, a string, a time, or
  anything else (kept opaque).  A Go \<open>error\<close> is a value carrying its message.
\<close>

datatype gvalue = VNil | VStr string | VTime nat | VOther nat

datatype error = Error string

fun errText :: "error \<Rightarrow> string" where
  "errText (Error m) = m"

text \<open>
  \<open>core.Record\<close>: its id, the name of its collection and its field data.  \<open>Get\<close> of a
  key that was never set is \<open>nil\<close>; \<open>Set\<close> stores the value under the key.
\<close>

record grecord =
  RecId :: string
  CollectionOf :: string
  fieldData :: "string \<rightharpoonup> gvalue"

definition Get :: "grecord \<Rightarrow> string \<Rightarrow> gvalue" where
  "Get r k = (case fieldData r k of None \<Rightarrow> VNil | Some v \<Rightarrow> v)"

definition Set_field :: "grecord \<Rightarrow> string \<Rightarrow> gvalue \<Rightarrow> grecord" where
  "Set_field r k v = r\<lparr>fieldData := (fieldData r)(k \<mapsto> v)\<rparr>"

text \<open>\<open>core.Collection\<close>, with what \<open>ensureAuditCollection\<close> puts into one.\<close>

datatype field =
    SelectField string bool "string list"
  | TextField string bool
  | DateField string bool
  | AutodateField string bool bool

record collection =
  Name :: string
  ListRule :: "string option"
  ViewRule :: "string option"
  CreateRule :: "string option"
  UpdateRule :: "string option"
  DeleteRule :: "string option"
  Fields :: "field list"
  Indexes :: "(string \<times> bool \<times> string \<times> string) list"

text \<open>
  The application state the logger works on: the collections and the persisted records of
  the storage collaborator, in the order they were saved, and the lines written with
  \<open>log.Printf\<close> (format string and rendered arguments).
\<close>

type_synonym logline = "string \<times> string list"

record app =
  collections :: "collection list"
  records :: "grecord list"
  console :: "logline list"

text \<open>
  What the collaborators decide and the code only observes: whether a save is refused,
  what \<open>json.Marshal\<close> makes of a record, what the round trip through a generic map
  (\<open>json.Unmarshal\<close>, its error ignored, then \<open>json.Marshal\<close>) makes of that text, and
  the clock.
\<close>

record platform =
  saveRecordError :: "grecord \<Rightarrow> error option"
  saveCollectionError :: "collection \<Rightarrow> error option"
  jsonMarshal :: "grecord \<Rightarrow> error + string"
  jsonRemarshal :: "string \<Rightarrow> error + string"
  timeNow :: nat

definition logPrintf :: "app \<Rightarrow> string \<Rightarrow> string list \<Rightarrow> app" where
  "logPrintf s fmt args = s\<lparr>console := console s @ [(fmt, args)]\<rparr>"

definition ErrNoRows :: error where
  "ErrNoRows = Error ''sql: no rows in result set''"

definition FindCollectionByNameOrId :: "app \<Rightarrow> string \<Rightarrow> error + collection" where
  "FindCollectionByNameOrId s n =
     (case find (\<lambda>c. Name c = n) (collections s) of
        None \<Rightarrow> Inl ErrNoRows
      | Some c \<Rightarrow> Inr c)"

definition FindRecordById :: "app \<Rightarrow> string \<Rightarrow> string \<Rightarrow> error + grecord" where
  "FindRecordById s coll i =
     (case find (\<lambda>r. CollectionOf r = coll \<and> RecId r = i) (records s) of
        None \<Rightarrow> Inl ErrNoRows
      | Some r \<Rightarrow> Inr r)"

definition SaveRecord :: "platform \<Rightarrow> app \<Rightarrow> grecord \<Rightarrow> error option \<times> app" where
  "SaveRecord pf s r =
     (case saveRecordError pf r of
        Some e \<Rightarrow> (Some e, s)
      | None \<Rightarrow> (None, s\<lparr>records := records s @ [r]\<rparr>))"


definition NewRecord :: "collection \<Rightarrow> grecord" where
  "NewRecord c = \<lparr>RecId = [], CollectionOf = Name c, fieldData = Map.empty\<rparr>"

section \<open>Configuration (options.go)\<close>

record Options =
  CollectionName :: string
  EnableStandardEvents :: bool
  EnableRequestEvents :: bool
  EnableAuthEvents :: bool
  EventFilter :: "(string \<Rightarrow> string \<Rightarrow> bool) option"
  SchemaPath :: string
  CreateAuditCollection :: bool
  FailOnSchemaError :: bool
  LogToConsole :: bool

definition DefaultOptions :: Options where
  "DefaultOptions = \<lparr>CollectionName = ''audit_logs'', EnableStandardEvents = True,
     EnableRequestEvents = True, EnableAuthEvents = True, EventFilter = None,
     SchemaPath = [], CreateAuditCollection = True, FailOnSchemaError = False,
     LogToConsole = True\<rparr>"

definition applyDefaultOptions :: "Options \<Rightarrow> Options" where
  "applyDefaultOptions options =
     (if CollectionName options = []
      then options\<lparr>CollectionName := CollectionName DefaultOptions\<rparr>
      else options)"

section \<open>The audit logger (logEvent and shouldLogEvent)\<close>

definition shouldLogEvent :: "Options \<Rightarrow> string \<Rightarrow> string \<Rightarrow> bool" where
  "shouldLogEvent opts collectionName eventType =
     (if collectionName = CollectionName opts then False
      else (case EventFilter opts of
              Some f \<Rightarrow> f collectionName eventType
            | None \<Rightarrow> True))"

text \<open>The record id of the entry: the local \<open>recordId\<close> of \<open>logEvent\<close>.\<close>

definition recordIdOf :: "grecord option \<Rightarrow> grecord option \<Rightarrow> string" where
  "recordIdOf afterRecord beforeRecord =
     (case afterRecord of
        Some a \<Rightarrow> RecId a
      | None \<Rightarrow> (case beforeRecord of Some b \<Rightarrow> RecId b | None \<Rightarrow> []))"

text \<open>\<open>for key, value := range requestInfo { auditRecord.Set(key, value) }\<close>; a nil map has
  nothing to range over.\<close>

definition applyRequestInfo :: "grecord \<Rightarrow> (string \<rightharpoonup> gvalue) option \<Rightarrow> grecord" where
  "applyRequestInfo r requestInfo =
     (case requestInfo of
        None \<Rightarrow> r
      | Some ri \<Rightarrow> r\<lparr>fieldData := fieldData r ++ ri\<rparr>)"

text \<open>The block that takes the user id from the records when the request supplied none.\<close>

definition userFromRecord :: "grecord \<Rightarrow> grecord \<Rightarrow> grecord" where
  "userFromRecord src auditRecord =
     (if Get src ''user'' \<noteq> VNil then Set_field auditRecord F_UserID (Get src ''user'')
      else if Get src ''created_by'' \<noteq> VNil
           then Set_field auditRecord F_UserID (Get src ''created_by'')
      else auditRecord)"

definition resolveUserID :: "grecord option \<Rightarrow> grecord option \<Rightarrow> grecord \<Rightarrow> grecord" where
  "resolveUserID afterRecord beforeRecord auditRecord =
     (if Get auditRecord F_UserID = VNil then
        (case afterRecord of
           Some a \<Rightarrow> userFromRecord a auditRecord
         | None \<Rightarrow> (case beforeRecord of
                      Some b \<Rightarrow> userFromRecord b auditRecord
                    | None \<Rightarrow> auditRecord))
      else auditRecord)"

text \<open>
  The two snapshot blocks are the same code on \<open>beforeRecord\<close> and on \<open>afterRecord\<close>:
  marshal the record, take the text through a generic map, store the result under the
  field; a failure of either marshal is logged and leaves the field unset.
\<close>

definition storeSnapshot ::
  "platform \<Rightarrow> string \<Rightarrow> string \<Rightarrow> string \<Rightarrow> grecord option \<Rightarrow> grecord \<times> logline list
     \<Rightarrow> grecord \<times> logline list" where
  "storeSnapshot pf fld fmtData fmtJSON src st =
     (case src of
        None \<Rightarrow> st
      | Some r \<Rightarrow>
          (case jsonMarshal pf r of
             Inl e \<Rightarrow> (fst st, snd st @ [(fmtData, [errText e])])
           | Inr dataJSON \<Rightarrow>
               (case jsonRemarshal pf dataJSON of
                  Inl e \<Rightarrow> (fst st, snd st @ [(fmtJSON, [errText e])])
                | Inr js \<Rightarrow> (Set_field (fst st) fld (VStr js), snd st))))"

text \<open>The audit record \<open>logEvent\<close> builds between the collection lookup and the save,
  with the lines it logs on the way.\<close>

definition assembleEntry ::
  "platform \<Rightarrow> collection \<Rightarrow> grecord option \<Rightarrow> grecord option \<Rightarrow> string \<Rightarrow> string
     \<Rightarrow> (string \<rightharpoonup> gvalue) option \<Rightarrow> grecord \<times> logline list" where
  "assembleEntry pf auditCollection afterRecord beforeRecord collectionName eventType requestInfo =
     (let auditRecord = NewRecord auditCollection;
          auditRecord = Set_field auditRecord F_EventType (VStr eventType);
          auditRecord = Set_field auditRecord F_CollectionName (VStr collectionName);
          recordId = recordIdOf afterRecord beforeRecord;
          auditRecord = Set_field auditRecord F_RecordID (VStr recordId);
          auditRecord = Set_field auditRecord F_Timestamp (VTime (timeNow pf));
          auditRecord = applyRequestInfo auditRecord requestInfo;
          auditRecord = resolveUserID afterRecord beforeRecord auditRecord;
          st = storeSnapshot pf F_BeforeChanges
                 ''Failed to marshal before record data: %v''
                 ''Failed to marshal before changes to JSON: %v'' beforeRecord (auditRecord, []);
          st = storeSnapshot pf F_AfterChanges
                 ''Failed to marshal after record data: %v''
                 ''Failed to marshal after changes to JSON: %v'' afterRecord st
      in st)"

definition logEvent ::
  "platform \<Rightarrow> Options \<Rightarrow> app \<Rightarrow> grecord option \<Rightarrow> grecord option \<Rightarrow> string \<Rightarrow> string
     \<Rightarrow> (string \<rightharpoonup> gvalue) option \<Rightarrow> error option \<times> app" where
  "logEvent pf opts s afterRecord beforeRecord collectionName eventType requestInfo =
     (if \<not> shouldLogEvent opts collectionName eventType then (None, s)
      else
        (case FindCollectionByNameOrId s (CollectionName opts) of
           Inl err \<Rightarrow>
             (Some err, logPrintf s ''Failed to find audit_logs collection '%s': %v''
                          [CollectionName opts, errText err])
         | Inr auditCollection \<Rightarrow>
             (let (auditRecord, msgs) =
                    assembleEntry pf auditCollection afterRecord beforeRecord
                      collectionName eventType requestInfo;
                  s1 = s\<lparr>console := console s @ msgs\<rparr>
              in (case SaveRecord pf s1 auditRecord of
                    (Some err, s2) \<Rightarrow>
                      (Some err, logPrintf s2 ''Failed to save audit log: %v'' [errText err])
                  | (None, s2) \<Rightarrow>
                      (None,
                       if LogToConsole opts
                       then logPrintf s2 ''Audit log created for %s event on %s record %s''
                              [eventType, collectionName, recordIdOf afterRecord beforeRecord]
                       else s2)))))"

section \<open>Event capture hooks (hooks.go)\<close>

text \<open>
  What a hook function does with the event it was given: it returns \<open>e.Next()\<close>, so the
  chain of the triggering operation goes on; or it returns a value of its own without
  calling \<open>e.Next()\<close>; or it dereferences a nil pointer.
\<close>

datatype hook_return = CallsNext | Returns "error option" | Panics

record RecordEvent =
  Record :: grecord

record RequestInfo =
  Method :: string
  Context :: string
  Auth :: "grecord option"
  Headers :: "(string \<times> string) list"

record RecordRequestEvent = RecordEvent +
  Collection :: string
  RealIP :: string
  RequestInfoResult :: "error + RequestInfo"

record RecordAuthRequestEvent =
  AuthRecord :: "grecord option"
  AuthMethod :: string
  AuthRealIP :: string
  AuthRequestInfoResult :: "error + RequestInfo"

definition onRecordAfterCreateSuccess ::
  "platform \<Rightarrow> Options \<Rightarrow> app \<Rightarrow> RecordEvent \<Rightarrow> hook_return \<times> app" where
  "onRecordAfterCreateSuccess pf opts s e =
     (let collectionName = CollectionOf (Record e) in
      if collectionName = CollectionName opts then (CallsNext, s)
      else (let (err, s1) = logEvent pf opts s (Some (Record e)) None collectionName
                              EventTypeCreate None
            in (Returns err, s1)))"

definition onRecordAfterUpdateSuccess ::
  "platform \<Rightarrow> Options \<Rightarrow> app \<Rightarrow> RecordEvent \<Rightarrow> hook_return \<times> app" where
  "onRecordAfterUpdateSuccess pf opts s e =
     (let collectionName = CollectionOf (Record e) in
      if collectionName = CollectionName opts then (CallsNext, s)
      else (let (err, s1) = logEvent pf opts s (Some (Record e)) None collectionName
                              EventTypeUpdate None
            in (Returns err, s1)))"

definition onRecordAfterDeleteSuccess ::
  "platform \<Rightarrow> Options \<Rightarrow> app \<Rightarrow> RecordEvent \<Rightarrow> hook_return \<times> app" where
  "onRecordAfterDeleteSuccess pf opts s e =
     (let collectionName = CollectionOf (Record e) in
      if collectionName = CollectionName opts then (CallsNext, s)
      else (let (err, s1) = logEvent pf opts s None (Some (Record e)) collectionName
                              EventTypeDelete None
            in (Returns err, s1)))"

text \<open>
  The request hooks carry the same block that fills \<open>requestInfo\<close>.  The IP is what
  \<open>e.RealIP()\<close> returns; the other copy of these hooks hands the event to \<open>extractIP\<close>
  (below), which for an event that has \<open>RealIP()\<close> returns that same value.
\<close>

definition requestInfoOf ::
  "app \<Rightarrow> RecordRequestEvent \<Rightarrow> (string \<rightharpoonup> gvalue) \<times> app" where
  "requestInfoOf s e =
     (let requestInfo = Map.empty(F_RequestIP \<mapsto> VStr (RealIP e)) in
      case RequestInfoResult e of
        Inl err \<Rightarrow> (requestInfo, logPrintf s ''Failed to get request info: %v'' [errText err])
      | Inr reqInfo \<Rightarrow>
          (let requestInfo = requestInfo(F_RequestMethod \<mapsto> VStr (Method reqInfo));
               requestInfo = requestInfo(F_RequestURL \<mapsto> VStr (Context reqInfo));
               requestInfo = (case Auth reqInfo of
                                None \<Rightarrow> requestInfo
                              | Some a \<Rightarrow> requestInfo(F_UserID \<mapsto> VStr (RecId a)))
           in (requestInfo, s)))"

definition logHookError :: "string \<Rightarrow> error option \<times> app \<Rightarrow> app" where
  "logHookError fmt res =
     (case fst res of
        Some err \<Rightarrow> logPrintf (snd res) fmt [errText err]
      | None \<Rightarrow> snd res)"

definition onRecordCreateRequest ::
  "platform \<Rightarrow> Options \<Rightarrow> app \<Rightarrow> RecordRequestEvent \<Rightarrow> hook_return \<times> app" where
  "onRecordCreateRequest pf opts s e =
     (if Collection e = CollectionName opts then (CallsNext, s)
      else (let (requestInfo, s1) = requestInfoOf s e;
                res = logEvent pf opts s1 (Some (Record e)) None (Collection e)
                        EventTypeCreateReq (Some requestInfo)
            in (CallsNext, logHookError ''Failed to log create request event: %v'' res)))"

text \<open>The read of the stored record that the update hook makes first; a failed read is
  logged and leaves \<open>originalRecord\<close> nil.\<close>

definition loadOriginalRecord :: "app \<Rightarrow> RecordRequestEvent \<Rightarrow> grecord option \<times> app" where
  "loadOriginalRecord s e =
     (case FindRecordById s (Collection e) (RecId (Record e)) of
        Inl err \<Rightarrow>
          (None, logPrintf s ''Failed to load original record for update tracking: %v''
                   [errText err])
      | Inr r \<Rightarrow> (Some r, s))"

definition onRecordUpdateRequest ::
  "platform \<Rightarrow> Options \<Rightarrow> app \<Rightarrow> RecordRequestEvent \<Rightarrow> hook_return \<times> app" where
  "onRecordUpdateRequest pf opts s e =
     (if Collection e = CollectionName opts then (CallsNext, s)
      else (let (originalRecord, s0) = loadOriginalRecord s e;
                (requestInfo, s1) = requestInfoOf s0 e;
                res = logEvent pf opts s1 (Some (Record e)) originalRecord (Collection e)
                        EventTypeUpdateReq (Some requestInfo)
            in (CallsNext, logHookError ''Failed to log update request event: %v'' res)))"

definition onRecordDeleteRequest ::
  "platform \<Rightarrow> Options \<Rightarrow> app \<Rightarrow> RecordRequestEvent \<Rightarrow> hook_return \<times> app" where
  "onRecordDeleteRequest pf opts s e =
     (if Collection e = CollectionName opts then (CallsNext, s)
      else (let (requestInfo, s1) = requestInfoOf s e;
                res = logEvent pf opts s1 None (Some (Record e)) (Collection e)
                        EventTypeDeleteReq (Some requestInfo)
            in (CallsNext, logHookError ''Failed to log delete request event: %v'' res)))"

definition authRequestInfoOf ::
  "app \<Rightarrow> RecordAuthRequestEvent \<Rightarrow> (string \<rightharpoonup> gvalue) \<times> app" where
  "authRequestInfoOf s e =
     (let requestInfo = Map.empty(F_AuthMethod \<mapsto> VStr (AuthMethod e));
          requestInfo = (case AuthRecord e of
                           None \<Rightarrow> requestInfo
                         | Some r \<Rightarrow> requestInfo(F_UserID \<mapsto> VStr (RecId r)));
          requestInfo = requestInfo(F_RequestIP \<mapsto> VStr (AuthRealIP e)) in
      case AuthRequestInfoResult e of
        Inl err \<Rightarrow> (requestInfo, logPrintf s ''Failed to get request info: %v'' [errText err])
      | Inr reqInfo \<Rightarrow>
          (let requestInfo = requestInfo(F_RequestMethod \<mapsto> VStr (Method reqInfo));
               requestInfo = requestInfo(F_RequestURL \<mapsto> VStr (Context reqInfo))
           in (requestInfo, s)))"

text \<open>The auth hook reads \<open>e.Record.Collection().Name\<close> without a nil check of its own.\<close>

definition onRecordAuthRequest ::
  "platform \<Rightarrow> Options \<Rightarrow> app \<Rightarrow> RecordAuthRequestEvent \<Rightarrow> hook_return \<times> app" where
  "onRecordAuthRequest pf opts s e =
     (let (requestInfo, s1) = authRequestInfoOf s e in
      case AuthRecord e of
        None \<Rightarrow> (Panics, s1)
      | Some r \<Rightarrow>
          (let res = logEvent pf opts s1 (Some r) None (CollectionOf r) EventTypeAuth
                       (Some requestInfo)
           in (CallsNext, logHookError ''Failed to log auth event: %v'' res)))"

section \<open>Registration (Setup)\<close>

text \<open>
  The seven registration points.  \<open>Setup\<close> binds the three families of hooks under their
  option flags; an event whose hook is not bound meets no code of the logger and goes on.
\<close>

datatype event =
    AfterCreate RecordEvent
  | AfterUpdate RecordEvent
  | AfterDelete RecordEvent
  | CreateRequest RecordRequestEvent
  | UpdateRequest RecordRequestEvent
  | DeleteRequest RecordRequestEvent
  | AuthRequest RecordAuthRequestEvent

fun dispatch :: "platform \<Rightarrow> Options \<Rightarrow> app \<Rightarrow> event \<Rightarrow> hook_return \<times> app" where
  "dispatch pf opts s (AfterCreate e) =
     (if EnableStandardEvents opts then onRecordAfterCreateSuccess pf opts s e else (CallsNext, s))"
| "dispatch pf opts s (AfterUpdate e) =
     (if EnableStandardEvents opts then onRecordAfterUpdateSuccess pf opts s e else (CallsNext, s))"
| "dispatch pf opts s (AfterDelete e) =
     (if EnableStandardEvents opts then onRecordAfterDeleteSuccess pf opts s e else (CallsNext, s))"
| "dispatch pf opts s (CreateRequest e) =
     (if EnableRequestEvents opts then onRecordCreateRequest pf opts s e else (CallsNext, s))"
| "dispatch pf opts s (UpdateRequest e) =
     (if EnableRequestEvents opts then onRecordUpdateRequest pf opts s e else (CallsNext, s))"
| "dispatch pf opts s (DeleteRequest e) =
     (if EnableRequestEvents opts then onRecordDeleteRequest pf opts s e else (CallsNext, s))"
| "dispatch pf opts s (AuthRequest e) =
     (if EnableAuthEvents opts then onRecordAuthRequest pf opts s e else (CallsNext, s))"

text \<open>
  The call of \<open>logEvent\<close> that the hook of an event makes, with the state it makes it in:
  none for an event on the audit collection that the hook passes on, for an auth event
  without a record, and for a hook that is not bound.
\<close>

record logCall =
  callAfter :: "grecord option"
  callBefore :: "grecord option"
  callCollection :: string
  callEvent :: string
  callInfo :: "(string \<rightharpoonup> gvalue) option"

definition logEventCall :: "platform \<Rightarrow> Options \<Rightarrow> app \<Rightarrow> logCall \<Rightarrow> error option \<times> app" where
  "logEventCall pf opts s c =
     logEvent pf opts s (callAfter c) (callBefore c) (callCollection c) (callEvent c) (callInfo c)"

definition standardCall :: "Options \<Rightarrow> app \<Rightarrow> grecord option \<Rightarrow> grecord option \<Rightarrow> string
    \<Rightarrow> string \<Rightarrow> (logCall \<times> app) option" where
  "standardCall opts s a b collectionName eventType =
     (if EnableStandardEvents opts \<and> collectionName \<noteq> CollectionName opts
      then Some (\<lparr>callAfter = a, callBefore = b, callCollection = collectionName,
                  callEvent = eventType, callInfo = None\<rparr>, s)
      else None)"

fun hookCall :: "Options \<Rightarrow> app \<Rightarrow> event \<Rightarrow> (logCall \<times> app) option" where
  "hookCall opts s (AfterCreate e) =
     standardCall opts s (Some (Record e)) None (CollectionOf (Record e)) EventTypeCreate"
| "hookCall opts s (AfterUpdate e) =
     standardCall opts s (Some (Record e)) None (CollectionOf (Record e)) EventTypeUpdate"
| "hookCall opts s (AfterDelete e) =
     standardCall opts s None (Some (Record e)) (CollectionOf (Record e)) EventTypeDelete"
| "hookCall opts s (CreateRequest e) =
     (if EnableRequestEvents opts \<and> Collection e \<noteq> CollectionName opts
      then Some (\<lparr>callAfter = Some (Record e), callBefore = None, callCollection = Collection e,
                  callEvent = EventTypeCreateReq,
                  callInfo = Some (fst (requestInfoOf s e))\<rparr>, snd (requestInfoOf s e))
      else None)"
| "hookCall opts s (UpdateRequest e) =
     (if EnableRequestEvents opts \<and> Collection e \<noteq> CollectionName opts
      then Some (\<lparr>callAfter = Some (Record e), callBefore = fst (loadOriginalRecord s e),
                  callCollection = Collection e, callEvent = EventTypeUpdateReq,
                  callInfo = Some (fst (requestInfoOf (snd (loadOriginalRecord s e)) e))\<rparr>,
                 snd (requestInfoOf (snd (loadOriginalRecord s e)) e))
      else None)"
| "hookCall opts s (DeleteRequest e) =
     (if EnableRequestEvents opts \<and> Collection e \<noteq> CollectionName opts
      then Some (\<lparr>callAfter = None, callBefore = Some (Record e), callCollection = Collection e,
                  callEvent = EventTypeDeleteReq,
                  callInfo = Some (fst (requestInfoOf s e))\<rparr>, snd (requestInfoOf s e))
      else None)"
| "hookCall opts s (AuthRequest e) =
     (if EnableAuthEvents opts
      then (case AuthRecord e of
              None \<Rightarrow> None
            | Some r \<Rightarrow>
                Some (\<lparr>callAfter = Some r, callBefore = None, callCollection = CollectionOf r,
                       callEvent = EventTypeAuth,
                       callInfo = Some (fst (authRequestInfoOf s e))\<rparr>,
                      snd (authRequestInfoOf s e)))
      else None)"


section \<open>Schema provisioning (ensureAuditCollection)\<close>

definition adminRule :: string where
  "adminRule = ''@request.auth.type = '' @ [CHR 0x27] @ ''admin'' @ [CHR 0x27]"

definition NewBaseCollection :: "string \<Rightarrow> collection" where
  "NewBaseCollection n = \<lparr>Name = n, ListRule = None, ViewRule = None, CreateRule = None,
     UpdateRule = None, DeleteRule = None, Fields = [], Indexes = []\<rparr>"

definition auditCollectionOf :: "string \<Rightarrow> collection" where
  "auditCollectionOf collectionName =
     (NewBaseCollection collectionName)
       \<lparr>ListRule := Some adminRule, ViewRule := Some adminRule, CreateRule := Some adminRule,
        UpdateRule := Some adminRule, DeleteRule := Some adminRule,
        Fields :=
          [SelectField F_EventType True AllEventTypes,
           TextField F_CollectionName True,
           TextField F_RecordID True,
           TextField F_UserID False,
           TextField F_AuthMethod False,
           TextField F_RequestMethod False,
           TextField F_RequestIP False,
           TextField F_RequestURL False,
           DateField F_Timestamp True,
           TextField F_BeforeChanges False,
           TextField F_AfterChanges False,
           AutodateField F_Created True False,
           AutodateField F_Updated True True],
        Indexes :=
          [(''idx_audit_collection_name'', False, F_CollectionName, []),
           (''idx_audit_record_id'', False, F_RecordID, []),
           (''idx_audit_timestamp'', False, F_Timestamp, []),
           (''idx_audit_user_id'', False, F_UserID, []),
           (''idx_audit_event_type'', False, F_EventType, [])]\<rparr>"


section \<open>Client IP extraction (extractIP)\<close>













section \<open>Concrete inputs\<close>

text \<open>A platform on which every save and every serialization succeeds, an application
  without collections, one provisioned with the audit collection, and a record.\<close>

definition demoPlatform :: platform where
  "demoPlatform = \<lparr>saveRecordError = (\<lambda>r. None), saveCollectionError = (\<lambda>c. None),
     jsonMarshal = (\<lambda>r. Inr (''record '' @ RecId r)), jsonRemarshal = (\<lambda>t. Inr t),
     timeNow = 0\<rparr>"

definition emptyApp :: app where
  "emptyApp = \<lparr>collections = [], records = [], console = []\<rparr>"

definition provisionedApp :: app where
  "provisionedApp = \<lparr>collections = [auditCollectionOf ''audit_logs''], records = [],
     console = []\<rparr>"

definition widget :: grecord where
  "widget = \<lparr>RecId = ''w1'', CollectionOf = ''widgets'',
     fieldData = [''user'' \<mapsto> VStr ''U1'']\<rparr>"



definition widgetRequest :: RecordRequestEvent where
  "widgetRequest = \<lparr>Record = widget\<lparr>fieldData := [''title'' \<mapsto> VStr ''renamed'']\<rparr>,
     Collection = ''widgets'', RealIP = ''10.0.0.1'',
     RequestInfoResult = Inr \<lparr>Method = ''PATCH'', Context = ''default'', Auth = None,
                               Headers = []\<rparr>\<rparr>"

definition allowAll :: Options where
  "allowAll = DefaultOptions\<lparr>EventFilter := Some (\<lambda>collectionName eventType. True)\<rparr>"






section \<open>Auxiliary notions for the statements\<close>















text \<open>What the hook of an event does with the result of its call of \<open>logEvent\<close>.\<close>

fun afterCall :: "event \<Rightarrow> error option \<times> app \<Rightarrow> hook_return \<times> app" where
  "afterCall (AfterCreate e) res = (Returns (fst res), snd res)"
| "afterCall (AfterUpdate e) res = (Returns (fst res), snd res)"
| "afterCall (AfterDelete e) res = (Returns (fst res), snd res)"
| "afterCall (CreateRequest e) res =
     (CallsNext, logHookError ''Failed to log create request event: %v'' res)"
| "afterCall (UpdateRequest e) res =
     (CallsNext, logHookError ''Failed to log update request event: %v'' res)"
| "afterCall (DeleteRequest e) res =
     (CallsNext, logHookError ''Failed to log delete request event: %v'' res)"
| "afterCall (AuthRequest e) res =
     (CallsNext, logHookError ''Failed to log auth event: %v'' res)"

section \<open>Basic facts\<close>

















lemma logEvent_gate_closed:
  "\<not> shouldLogEvent opts cn et \<Longrightarrow> logEvent pf opts s a b cn et ri = (None, s)"
  by (simp add: logEvent_def)

lemma logEvent_lookup_failed:
  "shouldLogEvent opts cn et \<Longrightarrow> FindCollectionByNameOrId s (CollectionName opts) = Inl err \<Longrightarrow>
   logEvent pf opts s a b cn et ri =
     (Some err, logPrintf s ''Failed to find audit_logs collection '%s': %v''
                  [CollectionName opts, errText err])"
  by (simp add: logEvent_def)

lemma logEvent_save_failed:
  "shouldLogEvent opts cn et \<Longrightarrow> FindCollectionByNameOrId s (CollectionName opts) = Inr col \<Longrightarrow>
   saveRecordError pf (fst (assembleEntry pf col a b cn et ri)) = Some err \<Longrightarrow>
   fst (logEvent pf opts s a b cn et ri) = Some err \<and>
   records (snd (logEvent pf opts s a b cn et ri)) = records s \<and>
   collections (snd (logEvent pf opts s a b cn et ri)) = collections s"
  by (simp add: logEvent_def SaveRecord_def logPrintf_def Let_def split_beta)

lemma logEvent_saved:
  "shouldLogEvent opts cn et \<Longrightarrow> FindCollectionByNameOrId s (CollectionName opts) = Inr col \<Longrightarrow>
   saveRecordError pf (fst (assembleEntry pf col a b cn et ri)) = None \<Longrightarrow>
   fst (logEvent pf opts s a b cn et ri) = None \<and>
   records (snd (logEvent pf opts s a b cn et ri)) =
     records s @ [fst (assembleEntry pf col a b cn et ri)] \<and>
   collections (snd (logEvent pf opts s a b cn et ri)) = collections s"
  by (simp add: logEvent_def SaveRecord_def logPrintf_def Let_def split_beta)

lemma logEvent_collections:
  "collections (snd (logEvent pf opts s a b cn et ri)) = collections s"
  by (simp add: logEvent_def SaveRecord_def logPrintf_def Let_def split_beta
        split: sum.splits option.splits)


lemma find_collection_empty: "FindCollectionByNameOrId emptyApp n = Inl ErrNoRows"
  by (simp add: FindCollectionByNameOrId_def emptyApp_def)

lemma find_collection_provisioned:
  "FindCollectionByNameOrId provisionedApp ''audit_logs'' = Inr (auditCollectionOf ''audit_logs'')"
  by (simp add: FindCollectionByNameOrId_def provisionedApp_def auditCollectionOf_def
        NewBaseCollection_def)

lemma shouldLog_default_widgets: "shouldLogEvent DefaultOptions ''widgets'' et"
  by (simp add: shouldLogEvent_def DefaultOptions_def)




subsection \<open>What the hooks pass to the logger\<close>



lemma requestInfoOf_storage:
  "collections (snd (requestInfoOf s e)) = collections s \<and>
   records (snd (requestInfoOf s e)) = records s"
  by (simp add: requestInfoOf_def Let_def logPrintf_def split: sum.splits)

lemma authRequestInfoOf_storage:
  "collections (snd (authRequestInfoOf s e)) = collections s \<and>
   records (snd (authRequestInfoOf s e)) = records s"
  by (simp add: authRequestInfoOf_def Let_def logPrintf_def split: sum.splits)

lemma loadOriginalRecord_storage:
  "collections (snd (loadOriginalRecord s e)) = collections s \<and>
   records (snd (loadOriginalRecord s e)) = records s"
  by (simp add: loadOriginalRecord_def logPrintf_def split: sum.splits)



lemma hookCall_storage:
  "hookCall opts s ev = Some (c, s1) \<Longrightarrow>
   collections s1 = collections s \<and> records s1 = records s"
  by (cases ev)
     (auto simp: standardCall_def requestInfoOf_storage authRequestInfoOf_storage
           loadOriginalRecord_storage split: if_splits option.splits)


lemma collections_logHookError: "collections (logHookError fmt res) = collections (snd res)"
  by (simp add: logHookError_def logPrintf_def split: option.splits)


text \<open>An event is handled by the call its hook makes and by what the hook does with the
  result; an event without a call goes on untouched, but for the auth event without a
  record.\<close>

lemma dispatch_makes_call:
  "hookCall opts s ev = Some (c, s1) \<Longrightarrow>
   dispatch pf opts s ev = afterCall ev (logEventCall pf opts s1 c)"
  by (cases ev)
     (auto simp: standardCall_def logEventCall_def onRecordAfterCreateSuccess_def
        onRecordAfterUpdateSuccess_def onRecordAfterDeleteSuccess_def
        onRecordCreateRequest_def onRecordUpdateRequest_def onRecordDeleteRequest_def
        onRecordAuthRequest_def Let_def split_beta split: if_splits option.splits)

lemma dispatch_makes_no_call:
  "hookCall opts s ev = None \<Longrightarrow>
   fst (dispatch pf opts s ev) = CallsNext \<and> snd (dispatch pf opts s ev) = s
   \<or> (\<exists>e. ev = AuthRequest e \<and> AuthRecord e = None
          \<and> dispatch pf opts s ev = (Panics, snd (authRequestInfoOf s e)))"
  by (cases ev)
     (auto simp: standardCall_def onRecordAfterCreateSuccess_def
        onRecordAfterUpdateSuccess_def onRecordAfterDeleteSuccess_def
        onRecordCreateRequest_def onRecordUpdateRequest_def onRecordDeleteRequest_def
        onRecordAuthRequest_def Let_def split_beta split: if_splits option.splits)



subsection \<open>The concrete inputs\<close>

lemma default_options:
  "CollectionName DefaultOptions = ''audit_logs''" "EnableStandardEvents DefaultOptions"
  "EnableRequestEvents DefaultOptions" "EnableAuthEvents DefaultOptions"
  "EventFilter DefaultOptions = None" "LogToConsole DefaultOptions"
  by (simp_all add: DefaultOptions_def)

lemma demo_platform:
  "saveRecordError demoPlatform r = None" "saveCollectionError demoPlatform c = None"
  "jsonMarshal demoPlatform r = Inr (''record '' @ RecId r)"
  "jsonRemarshal demoPlatform t = Inr t" "timeNow demoPlatform = 0"
  by (simp_all add: demoPlatform_def)

lemma demo_apps:
  "collections emptyApp = []" "records emptyApp = []" "console emptyApp = []"
  "collections provisionedApp = [auditCollectionOf ''audit_logs'']"
  "records provisionedApp = []" "console provisionedApp = []"
  by (simp_all add: emptyApp_def provisionedApp_def)

lemma demo_widget:
  "RecId widget = ''w1''" "CollectionOf widget = ''widgets''"
  "Get widget ''user'' = VStr ''U1''" "Get widget ''created_by'' = VNil"
  by (simp_all add: widget_def Get_def)


subsection \<open>The fields of an assembled entry\<close>









subsection \<open>The update request on the stored widget\<close>









subsection \<open>Which records each hook passes\<close>





lemma allow_all:
  "CollectionName allowAll = ''audit_logs''"
  "EventFilter allowAll = Some (\<lambda>collectionName eventType. True)"
  by (simp_all add: allowAll_def DefaultOptions_def)

subsection \<open>Provisioning\<close>














subsection \<open>Header lookup\<close>










subsection \<open>What the hooks return\<close>

lemma request_hooks_call_next:
  "fst (onRecordCreateRequest pf opts s e) = CallsNext"
  "fst (onRecordUpdateRequest pf opts s e) = CallsNext"
  "fst (onRecordDeleteRequest pf opts s e) = CallsNext"
  by (simp_all add: onRecordCreateRequest_def onRecordUpdateRequest_def
        onRecordDeleteRequest_def Let_def split_beta)

lemma auth_hook_calls_next:
  "AuthRecord e \<noteq> None \<Longrightarrow> fst (onRecordAuthRequest pf opts s e) = CallsNext"
  by (auto simp: onRecordAuthRequest_def Let_def split_beta split: option.splits)

lemma standard_hooks_return:
  assumes "CollectionOf (Record e) \<noteq> CollectionName opts"
  shows "fst (onRecordAfterCreateSuccess pf opts s e)
           = Returns (fst (logEvent pf opts s (Some (Record e)) None (CollectionOf (Record e))
                             EventTypeCreate None))"
    and "fst (onRecordAfterUpdateSuccess pf opts s e)
           = Returns (fst (logEvent pf opts s (Some (Record e)) None (CollectionOf (Record e))
                             EventTypeUpdate None))"
    and "fst (onRecordAfterDeleteSuccess pf opts s e)
           = Returns (fst (logEvent pf opts s None (Some (Record e)) (CollectionOf (Record e))
                             EventTypeDelete None))"
  using assms
  by (simp_all add: onRecordAfterCreateSuccess_def onRecordAfterUpdateSuccess_def
        onRecordAfterDeleteSuccess_def Let_def split_beta)

lemma logEvent_widget_missing:
  "fst (logEvent demoPlatform DefaultOptions emptyApp a b ''widgets'' et ri) = Some ErrNoRows"
  by (simp add: logEvent_lookup_failed [OF shouldLog_default_widgets find_collection_empty])

lemma logEvent_widget_saved:
  "fst (logEvent demoPlatform DefaultOptions provisionedApp a b ''widgets'' et ri) = None"
proof -
  have lookup: "FindCollectionByNameOrId provisionedApp (CollectionName DefaultOptions)
                  = Inr (auditCollectionOf ''audit_logs'')"
    by (simp add: default_options find_collection_provisioned)
  from logEvent_saved [OF shouldLog_default_widgets lookup demo_platform(1)]
  show ?thesis by simp
qed

section \<open>The destination collection\<close>

text \<open>
  Claim C8.  A call of \<open>logEvent\<close> that passes the policy gate and whose lookup of the
  configured audit collection fails returns the error of the lookup; what it leaves behind
  is the state it was given with one more console line, the report of that error: no
  collection is created and no entry is persisted.
\<close>

theorem missing_audit_collection_is_hard_error:
  assumes "shouldLogEvent opts collectionName eventType"
    and "FindCollectionByNameOrId s (CollectionName opts) = Inl err"
  shows "logEvent pf opts s afterRecord beforeRecord collectionName eventType requestInfo =
           (Some err,
            s\<lparr>console := console s @
                 [(''Failed to find audit_logs collection '%s': %v'',
                   [CollectionName opts, errText err])]\<rparr>)
         \<and> collections (snd (logEvent pf opts s afterRecord beforeRecord collectionName
                               eventType requestInfo)) = collections s
         \<and> records (snd (logEvent pf opts s afterRecord beforeRecord collectionName
                           eventType requestInfo)) = records s"
  using assms by (simp add: logEvent_lookup_failed logPrintf_def)

theorem missing_audit_collection_witness:
  "shouldLogEvent DefaultOptions ''widgets'' EventTypeCreate
   \<and> FindCollectionByNameOrId emptyApp (CollectionName DefaultOptions) = Inl ErrNoRows
   \<and> logEvent demoPlatform DefaultOptions emptyApp (Some widget) None ''widgets''
       EventTypeCreate None =
       (Some ErrNoRows,
        \<lparr>collections = [], records = [],
         console = [(''Failed to find audit_logs collection '%s': %v'',
                     [''audit_logs'', ''sql: no rows in result set''])]\<rparr>)"
proof -
  have gate: "shouldLogEvent DefaultOptions ''widgets'' EventTypeCreate"
    by (rule shouldLog_default_widgets)
  have lookup: "FindCollectionByNameOrId emptyApp (CollectionName DefaultOptions) = Inl ErrNoRows"
    by (rule find_collection_empty)
  from missing_audit_collection_is_hard_error [OF gate lookup, of demoPlatform "Some widget" None None]
  show ?thesis
    using gate lookup by (simp add: emptyApp_def DefaultOptions_def ErrNoRows_def)
qed

section \<open>Self-exclusion\<close>



section \<open>The record id of an entry\<close>



section \<open>The user id of an entry\<close>




section \<open>Change tracking\<close>




section \<open>The filter predicate\<close>

text \<open>
  Claim C4, as the specification words it, fails: with a filter that returns true and no
  audit collection in the application, the call returns the error of the lookup and
  produces no entry.
\<close>

theorem filter_authority_counterexample:
  "''widgets'' \<noteq> CollectionName allowAll
   \<and> (case EventFilter allowAll of None \<Rightarrow> False | Some f \<Rightarrow> f ''widgets'' EventTypeCreate)
   \<and> fst (logEvent demoPlatform allowAll emptyApp (Some widget) None ''widgets''
            EventTypeCreate None) = Some ErrNoRows
   \<and> records (snd (logEvent demoPlatform allowAll emptyApp (Some widget) None ''widgets''
                     EventTypeCreate None)) = []"
proof -
  have pass: "shouldLogEvent allowAll ''widgets'' EventTypeCreate"
    by (simp add: shouldLogEvent_def allow_all)
  have lookup: "FindCollectionByNameOrId emptyApp (CollectionName allowAll) = Inl ErrNoRows"
    by (rule find_collection_empty)
  show ?thesis
    by (simp add: logEvent_lookup_failed [OF pass lookup] allow_all logPrintf_def demo_apps)
qed

text \<open>
  Claim C4, amended.  For a call of \<open>logEvent\<close> on a collection other than the audit
  collection, under options with a filter: if the filter returns false the call returns
  success and leaves the state as it was; if it returns true the call produces exactly one
  entry provided the lookup of the audit collection and the save both succeed, and
  otherwise returns the error of the step that failed and produces none.
\<close>

theorem filter_authority:
  assumes "collectionName \<noteq> CollectionName opts" and "EventFilter opts = Some f"
  shows "(\<not> f collectionName eventType \<longrightarrow>
            logEvent pf opts s afterRecord beforeRecord collectionName eventType requestInfo
              = (None, s))
       \<and> (f collectionName eventType \<longrightarrow>
            (case FindCollectionByNameOrId s (CollectionName opts) of
               Inl err \<Rightarrow>
                 fst (logEvent pf opts s afterRecord beforeRecord collectionName eventType
                        requestInfo) = Some err
                 \<and> records (snd (logEvent pf opts s afterRecord beforeRecord collectionName
                                   eventType requestInfo)) = records s
             | Inr col \<Rightarrow>
                 (case saveRecordError pf
                         (fst (assembleEntry pf col afterRecord beforeRecord collectionName
                                 eventType requestInfo)) of
                    Some err \<Rightarrow>
                      fst (logEvent pf opts s afterRecord beforeRecord collectionName eventType
                             requestInfo) = Some err
                      \<and> records (snd (logEvent pf opts s afterRecord beforeRecord collectionName
                                        eventType requestInfo)) = records s
                  | None \<Rightarrow>
                      fst (logEvent pf opts s afterRecord beforeRecord collectionName eventType
                             requestInfo) = None
                      \<and> records (snd (logEvent pf opts s afterRecord beforeRecord collectionName
                                        eventType requestInfo))
                          = records s @
                            [fst (assembleEntry pf col afterRecord beforeRecord collectionName
                                    eventType requestInfo)])))"
proof -
  have gate: "shouldLogEvent opts collectionName eventType = f collectionName eventType"
    using assms by (simp add: shouldLogEvent_def)
  show ?thesis
  proof (intro conjI impI)
    assume "\<not> f collectionName eventType"
    then show "logEvent pf opts s afterRecord beforeRecord collectionName eventType requestInfo
                 = (None, s)"
      by (simp add: logEvent_gate_closed gate)
  next
    assume "f collectionName eventType"
    then have pass: "shouldLogEvent opts collectionName eventType"
      by (simp add: gate)
    show "case FindCollectionByNameOrId s (CollectionName opts) of
               Inl err \<Rightarrow>
                 fst (logEvent pf opts s afterRecord beforeRecord collectionName eventType
                        requestInfo) = Some err
                 \<and> records (snd (logEvent pf opts s afterRecord beforeRecord collectionName
                                   eventType requestInfo)) = records s
             | Inr col \<Rightarrow>
                 (case saveRecordError pf
                         (fst (assembleEntry pf col afterRecord beforeRecord collectionName
                                 eventType requestInfo)) of
                    Some err \<Rightarrow>
                      fst (logEvent pf opts s afterRecord beforeRecord collectionName eventType
                             requestInfo) = Some err
                      \<and> records (snd (logEvent pf opts s afterRecord beforeRecord collectionName
                                        eventType requestInfo)) = records s
                  | None \<Rightarrow>
                      fst (logEvent pf opts s afterRecord beforeRecord collectionName eventType
                             requestInfo) = None
                      \<and> records (snd (logEvent pf opts s afterRecord beforeRecord collectionName
                                        eventType requestInfo))
                          = records s @
                            [fst (assembleEntry pf col afterRecord beforeRecord collectionName
                                    eventType requestInfo)])"
    proof (cases "FindCollectionByNameOrId s (CollectionName opts)")
      case (Inl err)
      then show ?thesis
        by (simp add: logEvent_lookup_failed [OF pass Inl] logPrintf_def)
    next
      case (Inr col)
      show ?thesis
      proof (cases "saveRecordError pf
                      (fst (assembleEntry pf col afterRecord beforeRecord collectionName
                              eventType requestInfo))")
        case None
        with logEvent_saved [OF pass Inr None] Inr show ?thesis by simp
      next
        case (Some err)
        with logEvent_save_failed [OF pass Inr Some] Inr show ?thesis by simp
      qed
    qed
  qed
qed

theorem filter_authority_witness:
  "''widgets'' \<noteq> CollectionName allowAll
   \<and> EventFilter allowAll = Some (\<lambda>collectionName eventType. True)
   \<and> fst (logEvent demoPlatform allowAll provisionedApp (Some widget) None ''widgets''
            EventTypeCreate None) = None
   \<and> records (snd (logEvent demoPlatform allowAll provisionedApp (Some widget) None ''widgets''
                     EventTypeCreate None))
       = [fst (assembleEntry demoPlatform (auditCollectionOf ''audit_logs'') (Some widget) None
                 ''widgets'' EventTypeCreate None)]"
proof -
  have name: "''widgets'' \<noteq> CollectionName allowAll"
    by (simp add: allow_all)
  note flt = allow_all(2)
  from filter_authority [OF name flt, where eventType = EventTypeCreate
         and pf = demoPlatform and s = provisionedApp and afterRecord = "Some widget"
         and beforeRecord = None and requestInfo = None]
  show ?thesis
    using name flt
    by (simp add: allow_all(1) find_collection_provisioned demo_platform demo_apps)
qed

section \<open>A call without records\<close>




section \<open>Schema provisioning\<close>




section \<open>The client IP\<close>




section \<open>What a hook returns when the logger fails\<close>

text \<open>
  Claim C2 does not hold of the three lifecycle hooks.  With the audit collection missing,
  the hooks after create, update and delete return the error of \<open>logEvent\<close> as their
  own result and do not call \<open>e.Next()\<close>; they do not call it when \<open>logEvent\<close>
  succeeds either.  The request hook, on the same application, logs the error and returns
  \<open>e.Next()\<close>.
\<close>

theorem lifecycle_hooks_return_logger_error:
  "fst (dispatch demoPlatform DefaultOptions emptyApp (AfterCreate \<lparr>Record = widget\<rparr>))
     = Returns (Some ErrNoRows)
   \<and> fst (dispatch demoPlatform DefaultOptions emptyApp (AfterUpdate \<lparr>Record = widget\<rparr>))
       = Returns (Some ErrNoRows)
   \<and> fst (dispatch demoPlatform DefaultOptions emptyApp (AfterDelete \<lparr>Record = widget\<rparr>))
       = Returns (Some ErrNoRows)
   \<and> fst (dispatch demoPlatform DefaultOptions provisionedApp (AfterCreate \<lparr>Record = widget\<rparr>))
       = Returns None
   \<and> fst (dispatch demoPlatform DefaultOptions emptyApp (CreateRequest widgetRequest))
       = CallsNext"
proof -
  have other: "CollectionOf (Record \<lparr>Record = widget\<rparr>) \<noteq> CollectionName DefaultOptions"
    by (simp add: default_options demo_widget)
  show ?thesis
    by (simp add: default_options standard_hooks_return [OF other] request_hooks_call_next
          demo_widget logEvent_widget_missing logEvent_widget_saved)
qed

end
